theory Spec2Isabelle
  imports Main "HOL-Library.Char_ord" "HOL-Library.List_Lexorder" "HOL-Library.Multiset"
begin

section \<open>Strings of the host language\<close>

text \<open>
  JavaScript strings are modelled as \<^typ>\<open>string\<close>: sequences of code units restricted
  to the range 0..255 (the Latin-1 block of Unicode). The character classes below are the
  ones the regular expressions of \<^verbatim>\<open>procedures.js\<close> use, cut down to that range.
\<close>

definition isSpace :: "char \<Rightarrow> bool" where
  "isSpace c = ((of_char c :: nat) \<in> {9, 10, 11, 12, 13, 32, 160})"

definition isDigit :: "char \<Rightarrow> bool" where
  "isDigit c = (48 \<le> (of_char c :: nat) \<and> (of_char c :: nat) \<le> 57)"

definition isLineTerminator :: "char \<Rightarrow> bool" where
  "isLineTerminator c = ((of_char c :: nat) \<in> {10, 13})"

text \<open>\<^verbatim>\<open>String.prototype.toLowerCase\<close> on code units 0..255.\<close>

definition toLowerCaseChar :: "char \<Rightarrow> char" where
  "toLowerCaseChar c = (let n = (of_char c :: nat) in
     if (65 \<le> n \<and> n \<le> 90) \<or> (192 \<le> n \<and> n \<le> 222 \<and> n \<noteq> 215)
     then char_of (n + 32) else c)"

definition toLowerCase :: "string \<Rightarrow> string" where
  "toLowerCase s = map toLowerCaseChar s"

text \<open>
  \<^verbatim>\<open>name.replace(/^[\s\xa0]+|[\s\xa0]+$/g, '')\<close>: the leading run and the trailing run
  of white space are deleted, nothing else.
\<close>

definition trim :: "string \<Rightarrow> string" where
  "trim name = rev (dropWhile isSpace (rev (dropWhile isSpace name)))"

text \<open>
  \<^verbatim>\<open>parseInt(digits, 10)\<close> on a string of decimal digits, and the conversion of a
  non-negative integer back to a string, both on naturals.
\<close>

definition parseInt :: "string \<Rightarrow> nat" where
  "parseInt digits = foldl (\<lambda>n c. 10 * n + ((of_char c :: nat) - 48)) 0 digits"

fun numberToString :: "nat \<Rightarrow> string" where
  "numberToString n =
     (if n < 10 then [char_of (48 + n)]
      else numberToString (n div 10) @ [char_of (48 + n mod 10)])"

declare numberToString.simps [simp del]

text \<open>
  \<^verbatim>\<open>parseInt(digits, 10) + 1\<close> as a string. JavaScript numbers are doubles: below \<open>2^53\<close>
  the value of the digits and its successor are exact and are printed digit by digit, which
  is what the naturals compute. From \<open>2^53\<close> on the host rounds (the sum stops growing),
  from \<open>10^21\<close> on it prints exponent notation, and beyond twenty digits the rounding of
  \<^verbatim>\<open>parseInt\<close> is left to the implementation: there the result is what the host answers
  for the digit string, the parameter \<open>hostIncrement\<close>.
\<close>

definition incrementDigits :: "(string \<Rightarrow> string) \<Rightarrow> string \<Rightarrow> string" where
  "incrementDigits hostIncrement digits =
     (if parseInt digits < 9007199254740992 then numberToString (parseInt digits + 1)
      else hostIncrement digits)"

text \<open>
  \<^verbatim>\<open>name.match(/^(.*?)(\d+)$/)\<close>: the second group is the longest run of digits at the
  end of the name, the first group is what precedes it. There is no match when the name does
  not end in a digit, or when a line terminator precedes the digits (\<^verbatim>\<open>.\<close> does not
  match one).
\<close>

definition matchTrailingDigits :: "string \<Rightarrow> (string \<times> string) option" where
  "matchTrailingDigits name =
     (let r2 = rev (takeWhile isDigit (rev name));
          r1 = rev (dropWhile isDigit (rev name))
      in if r2 = [] then None
         else if list_ex isLineTerminator r1 then None
         else Some (r1, r2))"

section \<open>Blocks and workspaces\<close>

text \<open>
  A procedure definition describes itself by the array \<^verbatim>\<open>[name, params, hasReturn]\<close>.
\<close>

type_synonym procTuple = "string \<times> string list \<times> bool"

definition tuple0 :: "procTuple \<Rightarrow> string" where
  "tuple0 t = fst t"

definition tuple2 :: "procTuple \<Rightarrow> bool" where
  "tuple2 t = snd (snd t)"

datatype error = TypeError

text \<open>
  \<^verbatim>\<open>tuple[0]\<close> and \<^verbatim>\<open>tuple[2]\<close> on the answer of \<^verbatim>\<open>getProcedureDef()\<close>: reading
  an element of \<^verbatim>\<open>null\<close> raises a \<^verbatim>\<open>TypeError\<close>.
\<close>

definition index0 :: "procTuple option \<Rightarrow> error + string" where
  "index0 tuple = (case tuple of None \<Rightarrow> Inl TypeError | Some t \<Rightarrow> Inr (tuple0 t))"

definition index2 :: "procTuple option \<Rightarrow> error + bool" where
  "index2 tuple = (case tuple of None \<Rightarrow> Inl TypeError | Some t \<Rightarrow> Inr (tuple2 t))"

text \<open>
  A block carries its identifier, its type tag, the flyout flag, and its children (the
  blocks connected below and inside it). The duck-typed capabilities of the source are
  options: \<open>getProcedureDef b = None\<close> says that the block has no such method,
  \<open>Some None\<close> that the method answers \<^verbatim>\<open>null\<close>, \<open>Some (Some t)\<close> that it answers the
  tuple \<open>t\<close>; \<open>renameProcedure b\<close> says whether the block has that method.
  \<open>getProcCode b\<close> is the resolved call identifier, \<open>None\<close> when absent.
  Object identity (\<^verbatim>\<open>blocks[i] == opt_exclude\<close>) is identity of \<open>block_id\<close>, which the
  workspace keeps unique.
\<close>

datatype block = Block
  (block_id: string)
  (block_type: string)
  (isInFlyout: bool)
  (getProcedureDef: "procTuple option option")
  (getProcCode: "string option")
  (renameProcedure: bool)
  (childBlocks: "block list")

text \<open>
  The workspace holds the top-level blocks (the roots of the stacks) and, for every block
  identifier, the cached mutation snapshot of that block. A snapshot is an opaque
  serialisable value: the DOM element is modelled by its text, so that
  \<^verbatim>\<open>Blockly.Xml.domToText\<close> is the identity.
\<close>

type_synonym dom = string

record workspace =
  topBlocks :: "block list"
  mutation :: "string \<Rightarrow> dom option"

text \<open>
  Modelled from the spec: \<^verbatim>\<open>block.getDescendants()\<close> is not part of the sources at hand;
  the spec names it as the sequence of the blocks of a stack. The block itself comes first,
  then the descendants of each child in turn.
\<close>

fun getDescendants :: "block \<Rightarrow> block list" where
  "getDescendants (Block i ty fl def code ren children) =
     Block i ty fl def code ren children # concat (map getDescendants children)"

text \<open>
  Modelled from the spec: \<^verbatim>\<open>workspace.getTopBlocks()\<close> and \<^verbatim>\<open>workspace.getAllBlocks()\<close>
  are not part of the sources at hand. The spec fixes no order for the second; here the
  stacks come in the order of the top blocks, each in descendant order.
\<close>

definition getTopBlocks :: "workspace \<Rightarrow> block list" where
  "getTopBlocks ws = topBlocks ws"

definition getAllBlocks :: "workspace \<Rightarrow> block list" where
  "getAllBlocks ws = concat (map getDescendants (getTopBlocks ws))"

text \<open>
  Modelled from the spec: \<^verbatim>\<open>Blockly.Names.equals\<close> is not part of the sources at hand;
  the spec says that names are compared case-insensitively.
\<close>

definition Names_equals :: "string \<Rightarrow> string \<Rightarrow> bool" where
  "Names_equals name1 name2 = (toLowerCase name1 = toLowerCase name2)"

section \<open>Name lookup and disambiguation\<close>

text \<open>
  \<^verbatim>\<open>Blockly.Procedures.isNameUsed\<close>. The loop over \<^verbatim>\<open>blocks\<close> is the recursion over
  the list; the answer of \<^verbatim>\<open>getProcedureDef()\<close> is indexed without a test.
\<close>

fun isNameUsed_loop :: "string \<Rightarrow> block list \<Rightarrow> block option \<Rightarrow> error + bool" where
  "isNameUsed_loop name [] opt_exclude = Inr True"
| "isNameUsed_loop name (b # blocks) opt_exclude =
     (if map_option block_id opt_exclude = Some (block_id b)
      then isNameUsed_loop name blocks opt_exclude
      else case getProcedureDef b of
             None \<Rightarrow> isNameUsed_loop name blocks opt_exclude
           | Some procName \<Rightarrow>
               (case index0 procName of
                  Inl e \<Rightarrow> Inl e
                | Inr n \<Rightarrow>
                    if Names_equals n name then Inr False
                    else isNameUsed_loop name blocks opt_exclude))"

definition isNameUsed :: "string \<Rightarrow> workspace \<Rightarrow> block option \<Rightarrow> error + bool" where
  "isNameUsed name ws opt_exclude = isNameUsed_loop name (getAllBlocks ws) opt_exclude"

text \<open>\<^verbatim>\<open>Blockly.Procedures.isLegalName_\<close>: the negation of \<open>isNameUsed\<close>.\<close>

definition isLegalName :: "string \<Rightarrow> workspace \<Rightarrow> block option \<Rightarrow> error + bool" where
  "isLegalName name ws opt_exclude =
     (case isNameUsed name ws opt_exclude of Inl e \<Rightarrow> Inl e | Inr used \<Rightarrow> Inr (\<not> used))"

text \<open>The body of the loop of \<open>findLegalName\<close>: the next candidate name.\<close>

definition nextName :: "(string \<Rightarrow> string) \<Rightarrow> string \<Rightarrow> string" where
  "nextName hostIncrement name =
     (case matchTrailingDigits name of
        None \<Rightarrow> name @ ''2''
      | Some r \<Rightarrow> fst r @ incrementDigits hostIncrement (snd r))"

text \<open>
  \<^verbatim>\<open>Blockly.Procedures.findLegalName\<close>. The \<^verbatim>\<open>while\<close> loop has no bound, so the model
  is a partial function: \<open>None\<close> is the run that never returns, \<open>Some (Inl e)\<close> the run that
  raises, \<open>Some (Inr name)\<close> the run that returns \<open>name\<close>. The workspace of the block
  (\<^verbatim>\<open>block.workspace\<close>) is the argument \<open>ws\<close>; \<open>hostIncrement\<close> is the parameter of
  \<open>incrementDigits\<close>.
\<close>

partial_function (option) findLegalName_while ::
  "(string \<Rightarrow> string) \<Rightarrow> string \<Rightarrow> block \<Rightarrow> workspace \<Rightarrow> (error + string) option" where
  "findLegalName_while hostIncrement name block ws =
     (case isLegalName name ws (Some block) of
        Inl e \<Rightarrow> Some (Inl e)
      | Inr legal \<Rightarrow>
          if \<not> legal then findLegalName_while hostIncrement (nextName hostIncrement name) block ws
          else Some (Inr name))"

definition findLegalName ::
  "(string \<Rightarrow> string) \<Rightarrow> string \<Rightarrow> block \<Rightarrow> workspace \<Rightarrow> (error + string) option" where
  "findLegalName hostIncrement name block ws =
     (if isInFlyout block then Some (Inr name)
      else findLegalName_while hostIncrement name block ws)"

section \<open>Listing the procedures\<close>

text \<open>
  \<^verbatim>\<open>Array.prototype.sort\<close> with a comparison function, as ECMAScript 2019 defines it: a
  stable sort. For a consistent comparison function the result does not depend on the
  algorithm; the model inserts each element before the first one it does not follow.
\<close>

fun insort_cmp :: "('a \<Rightarrow> 'a \<Rightarrow> int) \<Rightarrow> 'a \<Rightarrow> 'a list \<Rightarrow> 'a list" where
  "insort_cmp cmp x [] = [x]"
| "insort_cmp cmp x (y # ys) =
     (if cmp x y \<le> 0 then x # y # ys else y # insort_cmp cmp x ys)"

definition Array_sort :: "('a \<Rightarrow> 'a \<Rightarrow> int) \<Rightarrow> 'a list \<Rightarrow> 'a list" where
  "Array_sort cmp xs = foldr (insort_cmp cmp) xs []"

text \<open>
  \<^verbatim>\<open>Blockly.Procedures.procTupleComparator_\<close>. The collation of
  \<^verbatim>\<open>String.prototype.localeCompare\<close> belongs to the host and is a parameter.
\<close>

definition procTupleComparator ::
  "(string \<Rightarrow> string \<Rightarrow> int) \<Rightarrow> procTuple \<Rightarrow> procTuple \<Rightarrow> int" where
  "procTupleComparator localeCompare ta tb =
     localeCompare (toLowerCase (tuple0 ta)) (toLowerCase (tuple0 tb))"

text \<open>\<^verbatim>\<open>Blockly.Procedures.allProcedures\<close>: the scan of the blocks, then the two sorts.\<close>

fun allProcedures_loop ::
  "block list \<Rightarrow> procTuple list \<Rightarrow> procTuple list \<Rightarrow> error + (procTuple list \<times> procTuple list)"
  where
  "allProcedures_loop [] proceduresReturn proceduresNoReturn =
     Inr (proceduresReturn, proceduresNoReturn)"
| "allProcedures_loop (b # blocks) proceduresReturn proceduresNoReturn =
     (case getProcedureDef b of
        None \<Rightarrow> allProcedures_loop blocks proceduresReturn proceduresNoReturn
      | Some tuple \<Rightarrow>
          if tuple \<noteq> None then
            (case index2 tuple of
               Inl e \<Rightarrow> Inl e
             | Inr hasReturn \<Rightarrow>
                 if hasReturn
                 then allProcedures_loop blocks (proceduresReturn @ [the tuple]) proceduresNoReturn
                 else allProcedures_loop blocks proceduresReturn (proceduresNoReturn @ [the tuple]))
          else allProcedures_loop blocks proceduresReturn proceduresNoReturn)"

definition allProcedures ::
  "(string \<Rightarrow> string \<Rightarrow> int) \<Rightarrow> workspace \<Rightarrow> error + (procTuple list \<times> procTuple list)" where
  "allProcedures localeCompare root =
     (case allProcedures_loop (getAllBlocks root) [] [] of
        Inl e \<Rightarrow> Inl e
      | Inr r \<Rightarrow>
          Inr (Array_sort (procTupleComparator localeCompare) (snd r),
               Array_sort (procTupleComparator localeCompare) (fst r)))"

text \<open>
  The tuples of the blocks that describe themselves as procedure definitions, in the order
  of the scan: what \<open>allProcedures\<close> has to return, before partition and sorting.
\<close>

fun tuplesOf :: "block list \<Rightarrow> procTuple list" where
  "tuplesOf [] = []"
| "tuplesOf (b # blocks) =
     (case getProcedureDef b of Some (Some t) \<Rightarrow> t # tuplesOf blocks | _ \<Rightarrow> tuplesOf blocks)"

definition definitionTuples :: "workspace \<Rightarrow> procTuple list" where
  "definitionTuples ws = tuplesOf (getAllBlocks ws)"

text \<open>\<^verbatim>\<open>Blockly.Procedures.getDefinition\<close>: the first top block defining the name.\<close>

fun getDefinition_loop :: "string \<Rightarrow> block list \<Rightarrow> error + block option" where
  "getDefinition_loop name [] = Inr None"
| "getDefinition_loop name (b # blocks) =
     (case getProcedureDef b of
        None \<Rightarrow> getDefinition_loop name blocks
      | Some tuple \<Rightarrow>
          if tuple \<noteq> None then
            (case index0 tuple of
               Inl e \<Rightarrow> Inl e
             | Inr n \<Rightarrow>
                 if Names_equals n name then Inr (Some b)
                 else getDefinition_loop name blocks)
          else getDefinition_loop name blocks)"

definition getDefinition :: "string \<Rightarrow> workspace \<Rightarrow> error + block option" where
  "getDefinition name ws = getDefinition_loop name (getTopBlocks ws)"

section \<open>Renaming\<close>

text \<open>
  Modelled from the spec: \<^verbatim>\<open>block.renameProcedure(oldName, newName)\<close> is a mutator of the
  block layer, not part of the sources at hand. The model keeps the calls that are made:
  the receiver's identifier, the old name and the new name, in the order of the calls.
\<close>

type_synonym renameCall = "string \<times> string \<times> string"

fun rename_loop :: "string \<Rightarrow> string \<Rightarrow> block list \<Rightarrow> renameCall list" where
  "rename_loop oldName legalName [] = []"
| "rename_loop oldName legalName (b # blocks) =
     (if renameProcedure b
      then (block_id b, oldName, legalName) # rename_loop oldName legalName blocks
      else rename_loop oldName legalName blocks)"

text \<open>
  \<^verbatim>\<open>Blockly.Procedures.rename\<close>, called on the name field: \<open>sourceBlock\<close> is
  \<^verbatim>\<open>this.sourceBlock_\<close>, \<open>text\<close> is \<^verbatim>\<open>this.text_\<close> (the old name), \<open>ws\<close> is the
  workspace of the source block. The result is the accepted name with the calls made, and
  \<open>None\<close> when \<open>findLegalName\<close> does not return.
\<close>

definition rename ::
  "(string \<Rightarrow> string) \<Rightarrow> string \<Rightarrow> block \<Rightarrow> string \<Rightarrow> workspace
     \<Rightarrow> ((error + string) \<times> renameCall list) option"
  where
  "rename hostIncrement name sourceBlock text ws =
     (let name1 = trim name in
      case findLegalName hostIncrement name1 sourceBlock ws of
        None \<Rightarrow> None
      | Some (Inl e) \<Rightarrow> Some (Inl e, [])
      | Some (Inr legalName) \<Rightarrow>
          (let oldName = text in
           if oldName \<noteq> name1 \<and> oldName \<noteq> legalName
           then Some (Inr legalName, rename_loop oldName legalName (getAllBlocks ws))
           else Some (Inr legalName, [])))"

section \<open>Callers\<close>

text \<open>
  \<^verbatim>\<open>Blockly.Procedures.getCallers\<close>. The argument \<open>definitionRoot\<close> is \<open>None\<close> when the
  call passes none (\<^verbatim>\<open>undefined\<close>): reading its \<^verbatim>\<open>id\<close> raises a \<^verbatim>\<open>TypeError\<close>. An
  omitted \<open>allowRecursive\<close> is falsy, that is \<open>False\<close>. The first loop collects the stacks,
  the second keeps the callers; an empty \<^verbatim>\<open>procCode\<close> is falsy.
\<close>

fun getCallers_stacks ::
  "block list \<Rightarrow> block option \<Rightarrow> bool \<Rightarrow> block list \<Rightarrow> error + block list" where
  "getCallers_stacks [] definitionRoot allowRecursive allBlocks = Inr allBlocks"
| "getCallers_stacks (block # tops) definitionRoot allowRecursive allBlocks =
     (case definitionRoot of
        None \<Rightarrow> Inl TypeError
      | Some root \<Rightarrow>
          if block_id block = block_id root \<and> \<not> allowRecursive
          then getCallers_stacks tops definitionRoot allowRecursive allBlocks
          else getCallers_stacks tops definitionRoot allowRecursive
                 (allBlocks @ getDescendants block))"

fun getCallers_filter :: "string \<Rightarrow> block list \<Rightarrow> block list \<Rightarrow> block list" where
  "getCallers_filter name [] callers = callers"
| "getCallers_filter name (block # allBlocks) callers =
     (if block_type block = ''procedures_callnoreturn'' then
        (case getProcCode block of
           None \<Rightarrow> getCallers_filter name allBlocks callers
         | Some procCode \<Rightarrow>
             if procCode \<noteq> [] \<and> procCode = name
             then getCallers_filter name allBlocks (callers @ [block])
             else getCallers_filter name allBlocks callers)
      else getCallers_filter name allBlocks callers)"

definition getCallers ::
  "string \<Rightarrow> workspace \<Rightarrow> block option \<Rightarrow> bool \<Rightarrow> error + block list" where
  "getCallers name ws definitionRoot allowRecursive =
     (case getCallers_stacks (getTopBlocks ws) definitionRoot allowRecursive [] of
        Inl e \<Rightarrow> Inl e
      | Inr allBlocks \<Rightarrow> Inr (getCallers_filter name allBlocks []))"

text \<open>
  The call-type blocks as the data model of the spec names them: the type tags
  call-no-return and call-with-return. This definition follows the words of the spec and
  serves to state the claim about \<open>getCallers\<close>; the code tests one tag only.
\<close>

definition callType_spec :: "block \<Rightarrow> bool" where
  "callType_spec b =
     (block_type b = ''procedures_callnoreturn'' \<or> block_type b = ''procedures_callreturn'')"

section \<open>Events\<close>

text \<open>
  Modelled from the spec: the event facility (\<^verbatim>\<open>Blockly.Events\<close>) is not part of the
  sources at hand. It has the global record-undo flag, the current event group (\<open>None\<close> when
  no group is open) and the sequence of the events fired so far. An event takes the group
  and the flag from the globals at the time it is made; \<open>setGroup True\<close> opens a group under
  a fresh identifier, \<open>setGroup False\<close> closes it.
\<close>

datatype payload =
  Change string string "string option" "dom option" "dom option"
| Delete string "string list"

record event =
  ev_payload :: payload
  ev_group :: "nat option"
  ev_recordUndo :: bool

record events =
  recordUndo :: bool
  group :: "nat option"
  uidCount :: nat
  fired :: "event list"

definition BlockChange ::
  "events \<Rightarrow> block \<Rightarrow> string \<Rightarrow> string option \<Rightarrow> dom option \<Rightarrow> dom option \<Rightarrow> event" where
  "BlockChange ev b element name oldValue newValue =
     \<lparr>ev_payload = Change (block_id b) element name oldValue newValue,
      ev_group = group ev, ev_recordUndo = recordUndo ev\<rparr>"

definition BlockDelete :: "events \<Rightarrow> block \<Rightarrow> event" where
  "BlockDelete ev b =
     \<lparr>ev_payload = Delete (block_id b) (map block_id (getDescendants b)),
      ev_group = group ev, ev_recordUndo = recordUndo ev\<rparr>"

definition fire :: "event \<Rightarrow> events \<Rightarrow> events" where
  "fire e ev = ev\<lparr>fired := fired ev @ [e]\<rparr>"

definition setGroup :: "bool \<Rightarrow> events \<Rightarrow> events" where
  "setGroup state ev =
     (if state then ev\<lparr>group := Some (uidCount ev), uidCount := uidCount ev + 1\<rparr>
      else ev\<lparr>group := None\<rparr>)"

section \<open>Propagating a definition to its callers\<close>

text \<open>
  Modelled from the spec: \<^verbatim>\<open>block.mutationToDom()\<close> and \<^verbatim>\<open>block.domToMutation(dom)\<close>
  are not part of the sources at hand, nor is \<^verbatim>\<open>Blockly.Xml.domToText\<close>. The first
  answers the cached snapshot of the block (\<open>None\<close> when there is none), the second
  replaces it; the third is the identity on the text that stands for the element.
\<close>

definition mutationToDom :: "workspace \<Rightarrow> block \<Rightarrow> dom option" where
  "mutationToDom ws b = mutation ws (block_id b)"

definition domToMutation :: "block \<Rightarrow> dom option \<Rightarrow> workspace \<Rightarrow> workspace" where
  "domToMutation b xmlElement ws = ws\<lparr>mutation := (mutation ws)(block_id b := xmlElement)\<rparr>"

definition domToText :: "dom \<Rightarrow> string" where
  "domToText d = d"

text \<open>
  \<^verbatim>\<open>Blockly.Procedures.mutateCallers\<close>: the body of the loop for one caller, the loop, and
  the function. The state is the workspace with the globals of the event facility; a raised
  error comes with the state as it is at that moment.
\<close>

definition mutateCallers_body ::
  "bool \<Rightarrow> dom option \<Rightarrow> block \<Rightarrow> workspace \<times> events \<Rightarrow> workspace \<times> events" where
  "mutateCallers_body oldRecordUndo xmlElement caller s =
     (let oldMutationDom = mutationToDom (fst s) caller;
          oldMutation = map_option domToText oldMutationDom;
          ws1 = domToMutation caller xmlElement (fst s);
          newMutationDom = mutationToDom ws1 caller;
          newMutation = map_option domToText newMutationDom
      in if oldMutation \<noteq> newMutation then
           (let ev1 = (snd s)\<lparr>recordUndo := False\<rparr>;
                ev2 = fire (BlockChange ev1 caller ''mutation'' None oldMutation newMutation) ev1;
                ev3 = ev2\<lparr>recordUndo := oldRecordUndo\<rparr>
            in (ws1, ev3))
         else (ws1, snd s))"

fun mutateCallers_loop ::
  "bool \<Rightarrow> dom option \<Rightarrow> block list \<Rightarrow> workspace \<times> events \<Rightarrow> workspace \<times> events" where
  "mutateCallers_loop oldRecordUndo xmlElement [] s = s"
| "mutateCallers_loop oldRecordUndo xmlElement (caller # callers) s =
     mutateCallers_loop oldRecordUndo xmlElement callers
       (mutateCallers_body oldRecordUndo xmlElement caller s)"

definition mutateCallers ::
  "block \<Rightarrow> workspace \<times> events \<Rightarrow> (error + unit) \<times> workspace \<times> events" where
  "mutateCallers defBlock s =
     (let oldRecordUndo = recordUndo (snd s) in
      case getProcedureDef defBlock of
        None \<Rightarrow> (Inl TypeError, s)
      | Some tuple \<Rightarrow>
          (case index0 tuple of
             Inl e \<Rightarrow> (Inl e, s)
           | Inr name \<Rightarrow>
               (let xmlElement = mutationToDom (fst s) defBlock in
                case getCallers name (fst s) None False of
                  Inl e \<Rightarrow> (Inl e, s)
                | Inr callers \<Rightarrow>
                    (Inr (), mutateCallers_loop oldRecordUndo xmlElement callers s))))"

section \<open>Deleting a definition\<close>

text \<open>
  Modelled from the spec: \<^verbatim>\<open>block.dispose()\<close> is not part of the sources at hand. Per
  the spec all the blocks of the stack are disposed together: the block leaves the workspace
  with its descendants, and one delete event is fired for them.
\<close>

fun removeBlock :: "string \<Rightarrow> block \<Rightarrow> block" where
  "removeBlock i (Block j ty fl def code ren children) =
     Block j ty fl def code ren (map (removeBlock i) (filter (\<lambda>c. block_id c \<noteq> i) children))"

definition dispose :: "block \<Rightarrow> workspace \<times> events \<Rightarrow> workspace \<times> events" where
  "dispose b s =
     ((fst s)\<lparr>topBlocks :=
         map (removeBlock (block_id b)) (filter (\<lambda>c. block_id c \<noteq> block_id b) (topBlocks (fst s)))\<rparr>,
      fire (BlockDelete (snd s) b) (snd s))"

text \<open>\<^verbatim>\<open>Blockly.Procedures.deleteProcedureDefCallback\<close>.\<close>

definition deleteProcedureDefCallback ::
  "string \<Rightarrow> block \<Rightarrow> workspace \<times> events \<Rightarrow> (error + bool) \<times> workspace \<times> events" where
  "deleteProcedureDefCallback procCode definitionRoot s =
     (case getCallers procCode (fst s) (Some definitionRoot) False of
        Inl e \<Rightarrow> (Inl e, s)
      | Inr callers \<Rightarrow>
          if length callers > 0 then (Inr False, s)
          else
            (let s1 = (fst s, setGroup True (snd s));
                 s2 = dispose definitionRoot s1;
                 s3 = (fst s2, setGroup False (snd s2))
             in (Inr True, s3)))"

section \<open>Example workspaces\<close>

text \<open>A workspace with the single definition \<open>foo\<close>, and the globals before any event.\<close>

definition defFoo :: block where
  "defFoo = Block ''d1'' ''procedures_defnoreturn'' False
     (Some (Some (''foo'', [], False))) None False []"

definition wsFoo :: workspace where
  "wsFoo = \<lparr>topBlocks = [defFoo], mutation = (\<lambda>_. None)\<rparr>"

definition ev0 :: events where
  "ev0 = \<lparr>recordUndo = True, group = None, uidCount = 0, fired = []\<rparr>"

text \<open>
  The definition of \<open>foo\<close> with the parameters \<open>a\<close> and \<open>b\<close>, calling itself; the call
  still holds the snapshot with the single parameter \<open>a\<close>.
\<close>

definition callFoo :: block where
  "callFoo = Block ''c1'' ''procedures_callnoreturn'' False None (Some ''foo'') True []"

definition defFooAB :: block where
  "defFooAB = Block ''d1'' ''procedures_defnoreturn'' False
     (Some (Some (''foo'', [''a'', ''b''], False))) None False [callFoo]"

definition wsCall :: workspace where
  "wsCall = \<lparr>topBlocks = [defFooAB],
     mutation = (\<lambda>_. None)(''d1'' := Some ''foo a b'', ''c1'' := Some ''foo a'')\<rparr>"

text \<open>
  The scenario of the spec: the definitions \<open>jump\<close> (no return value) and \<open>Add\<close> (with
  one) and a caller of \<open>jump\<close>; and the same workspace without the caller.
\<close>

definition defJump :: block where
  "defJump = Block ''d1'' ''procedures_defnoreturn'' False
     (Some (Some (''jump'', [], False))) None False []"

definition defAdd :: block where
  "defAdd = Block ''d2'' ''procedures_defreturn'' False
     (Some (Some (''Add'', [], True))) None False []"

definition callJump :: block where
  "callJump = Block ''c2'' ''procedures_callnoreturn'' False None (Some ''jump'') True []"

definition wsScenario :: workspace where
  "wsScenario = \<lparr>topBlocks = [defJump, defAdd, callJump], mutation = (\<lambda>_. None)\<rparr>"

definition wsNoCaller :: workspace where
  "wsNoCaller = \<lparr>topBlocks = [defJump, defAdd], mutation = (\<lambda>_. None)\<rparr>"

text \<open>A call block whose call identifier is the empty string, alone in its workspace.\<close>

definition callEmpty :: block where
  "callEmpty = Block ''c0'' ''procedures_callnoreturn'' False None (Some []) True []"

definition wsEmpty :: workspace where
  "wsEmpty = \<lparr>topBlocks = [callEmpty], mutation = (\<lambda>_. None)\<rparr>"

text \<open>A block that has \<^verbatim>\<open>getProcedureDef\<close> and answers \<^verbatim>\<open>null\<close>, alone in its workspace.\<close>

definition defNull :: block where
  "defNull = Block ''n1'' ''procedures_defnoreturn'' False (Some None) None False []"

definition wsNull :: workspace where
  "wsNull = \<lparr>topBlocks = [defNull], mutation = (\<lambda>_. None)\<rparr>"

text \<open>
  A block of type \<^verbatim>\<open>procedures_callreturn\<close> that calls \<open>Add\<close>, in a workspace with the
  definition of \<open>Add\<close>.
\<close>

definition callAdd :: block where
  "callAdd = Block ''c5'' ''procedures_callreturn'' False None (Some ''Add'') True []"

definition wsAdd :: workspace where
  "wsAdd = \<lparr>topBlocks = [defAdd, callAdd], mutation = (\<lambda>_. None)\<rparr>"

text \<open>
  A collation for the examples: the order of the code units. And a workspace with the
  definitions \<open>b\<close>, \<open>Add\<close> (with a return value), \<open>B\<close> and \<open>a\<close>, in this order.
\<close>

definition codeUnitCompare :: "string \<Rightarrow> string \<Rightarrow> int" where
  "codeUnitCompare a b = (if a < b then - 1 else if a = b then 0 else 1)"

definition wsSort :: workspace where
  "wsSort = \<lparr>topBlocks =
     [Block ''p1'' ''procedures_defnoreturn'' False (Some (Some (''b'', [], False))) None False [],
      Block ''p2'' ''procedures_defreturn'' False (Some (Some (''Add'', [], True))) None False [],
      Block ''p3'' ''procedures_defnoreturn'' False (Some (Some (''B'', [''x''], False))) None False [],
      Block ''p4'' ''procedures_defnoreturn'' False (Some (Some (''a'', [], False))) None False []],
     mutation = (\<lambda>_. None)\<rparr>"

section \<open>Name lookup: what the code answers\<close>

text \<open>
  C2. The claim: \<open>isNameUsed\<close> answers true exactly when a block other than the excluded
  one defines the name, compared without case. The code answers the opposite: in the
  workspace whose only block defines \<open>foo\<close>, asking for \<open>Foo\<close> with no block excluded
  gives \<^verbatim>\<open>false\<close>.
\<close>

theorem isNameUsed_answers_false_for_used_name:
  "isNameUsed ''Foo'' wsFoo None = Inr False"
  by code_simp

section \<open>Disambiguation: the loop that does not end\<close>

lemma findLegalName_while_returns:
  assumes "findLegalName_while h name block ws = Some y"
  shows "\<not> (\<forall>n. isLegalName n ws (Some block) = Inr False)"
  by (rule findLegalName_while.raw_induct
        [where P = "\<lambda>h name block ws y. \<not> (\<forall>n. isLegalName n ws (Some block) = Inr False)",
         OF _ assms])
     (force split: sum.splits if_splits)

lemma findLegalName_loops:
  assumes "\<not> isInFlyout block" and "\<And>n. isLegalName n ws (Some block) = Inr False"
  shows "findLegalName h name block ws = None"
proof (cases "findLegalName_while h name block ws")
  case None
  with assms(1) show ?thesis by (simp add: findLegalName_def)
next
  case (Some y)
  from findLegalName_while_returns [OF this] assms(2) show ?thesis by simp
qed

lemma isLegalName_wsFoo: "isLegalName n wsFoo (Some defFoo) = Inr False"
  by (simp add: isLegalName_def isNameUsed_def wsFoo_def defFoo_def getAllBlocks_def
      getTopBlocks_def)

lemma findLegalName_wsFoo: "findLegalName h n defFoo wsFoo = None"
  by (rule findLegalName_loops) (simp add: defFoo_def, rule isLegalName_wsFoo)

text \<open>
  C3. The claim: outside a flyout \<open>findLegalName\<close> ends and returns a name that no other
  definition uses. In the workspace whose only block is the context block itself, which is
  not in a flyout, the code never returns: no other definition holds any name, the inverted
  \<open>isNameUsed\<close> answers \<^verbatim>\<open>true\<close> for each candidate, and the loop goes on, whatever
  the host does with large numbers.
\<close>

theorem findLegalName_never_returns:
  "findLegalName hostIncrement ''foo'' defFoo wsFoo = None"
  by (rule findLegalName_wsFoo)

section \<open>Renaming to the same name\<close>

lemma trim_foo: "trim ''foo'' = ''foo''"
  by code_simp

text \<open>
  C7. The claim: \<open>rename(x, block, x)\<close> returns \<open>x\<close> and renames no caller. The code does
  not return for the block that defines \<open>foo\<close> alone in its workspace: the call of
  \<open>findLegalName\<close> does not end.
\<close>

theorem rename_same_name_never_returns:
  "rename hostIncrement ''foo'' defFoo ''foo'' wsFoo = None"
  unfolding rename_def Let_def trim_foo findLegalName_wsFoo by simp

section \<open>Propagation: the call that raises\<close>

lemma mutateCallers_raises:
  "getTopBlocks ws \<noteq> [] \<Longrightarrow> mutateCallers defBlock (ws, ev) = (Inl TypeError, ws, ev)"
  by (cases "getTopBlocks ws")
     (auto simp: mutateCallers_def getCallers_def index0_def split: option.splits sum.splits)

text \<open>
  C1. The claim: \<open>mutateCallers(def)\<close> brings the snapshot of every caller to the one of
  the definition. The code asks \<open>getCallers\<close> for the callers without a definition root,
  and \<open>getCallers\<close> raises on the first top block: the call inside the stack of \<open>foo\<close>
  keeps its old snapshot, and nothing else changes either.
\<close>

theorem mutateCallers_raises_before_any_update:
  "mutateCallers defFooAB (wsCall, ev0) = (Inl TypeError, wsCall, ev0)
   \<and> callFoo \<in> set (getAllBlocks wsCall)
   \<and> getProcCode callFoo = Some ''foo''
   \<and> mutationToDom wsCall callFoo = Some ''foo a''
   \<and> mutationToDom wsCall defFooAB = Some ''foo a b''"
  by (simp add: mutateCallers_def defFooAB_def wsCall_def index0_def getCallers_def
      getTopBlocks_def mutationToDom_def callFoo_def getAllBlocks_def)

section \<open>Callers of a procedure\<close>

lemma getCallers_stacks_Some:
  "getCallers_stacks tops (Some root) allowRecursive acc =
     Inr (acc @ concat (map getDescendants
       (filter (\<lambda>t. \<not> (block_id t = block_id root \<and> \<not> allowRecursive)) tops)))"
  by (induction tops arbitrary: acc) auto

lemma getCallers_filter_eq:
  "getCallers_filter name bs acc =
     acc @ filter (\<lambda>b. block_type b = ''procedures_callnoreturn''
                      \<and> getProcCode b = Some name \<and> name \<noteq> []) bs"
  by (induction bs arbitrary: acc) (auto split: option.splits)

lemma getCallers_Some:
  "getCallers name ws (Some definitionRoot) allowRecursive =
     Inr (filter (\<lambda>b. block_type b = ''procedures_callnoreturn''
                      \<and> getProcCode b = Some name \<and> name \<noteq> [])
           (concat (map getDescendants
             (filter (\<lambda>t. \<not> (block_id t = block_id definitionRoot \<and> \<not> allowRecursive))
                (getTopBlocks ws)))))"
  by (simp add: getCallers_def getCallers_stacks_Some getCallers_filter_eq)

text \<open>
  C5, as the claim states it: the callers are the call-type blocks whose call identifier
  equals the name. The code differs in two places. The test
  \<^verbatim>\<open>block.type == 'procedures_callnoreturn'\<close> skips the call-with-return blocks: the
  block \<open>callAdd\<close> calls \<open>Add\<close> and is not among the callers of \<open>Add\<close>. The test
  \<^verbatim>\<open>procCode && procCode == name\<close> drops a call block whose identifier is the empty
  string: \<open>callEmpty\<close> is not among the callers of the empty name.
\<close>

theorem getCallers_call_type_counterexample:
  "getCallers ''Add'' wsAdd (Some defAdd) False \<noteq>
     Inr (filter (\<lambda>b. callType_spec b \<and> getProcCode b = Some ''Add'')
           (concat (map getDescendants
             (filter (\<lambda>t. \<not> (block_id t = block_id defAdd \<and> \<not> False)) (getTopBlocks wsAdd)))))
   \<and> getCallers [] wsEmpty (Some defFoo) True \<noteq>
     Inr (filter (\<lambda>b. callType_spec b \<and> getProcCode b = Some [])
           (concat (map getDescendants
             (filter (\<lambda>t. \<not> (block_id t = block_id defFoo \<and> \<not> True)) (getTopBlocks wsEmpty)))))"
  by (simp add: getCallers_def callType_spec_def wsAdd_def wsEmpty_def getTopBlocks_def
      defAdd_def callAdd_def callEmpty_def defFoo_def)

text \<open>
  C5, amended: for every name, workspace, definition root and flag, \<open>getCallers\<close> returns
  exactly the blocks of type \<^verbatim>\<open>procedures_callnoreturn\<close> (a call-with-return block is
  never a caller) whose call identifier is not empty and equals the name (case matters),
  taken from the descendants of every top block except, when \<open>allowRecursive\<close> is false,
  the top block with the identifier of the definition root; in the order of the top blocks,
  then in descendant order.
\<close>

theorem getCallers_exact:
  "getCallers name ws (Some definitionRoot) allowRecursive =
     Inr (filter (\<lambda>b. block_type b = ''procedures_callnoreturn''
                      \<and> getProcCode b = Some name \<and> name \<noteq> [])
           (concat (map getDescendants
             (filter (\<lambda>t. \<not> (block_id t = block_id definitionRoot \<and> \<not> allowRecursive))
                (getTopBlocks ws)))))"
  by (rule getCallers_Some)

theorem getCallers_exact_witness:
  "getCallers ''jump'' wsScenario (Some defJump) False = Inr [callJump]"
  using getCallers_exact [of "''jump''" wsScenario defJump False]
  by (simp add: wsScenario_def getTopBlocks_def defJump_def defAdd_def callJump_def)

section \<open>The deletion guard\<close>

lemma removeBlock_id [simp]: "block_id (removeBlock i b) = block_id b"
  by (cases b) simp

lemma removeBlock_gone:
  "block_id b \<noteq> i \<Longrightarrow> i \<notin> block_id ` set (getDescendants (removeBlock i b))"
proof (induction b)
  case (Block j ty fl d c r children)
  have "\<And>x. x \<in> set children \<Longrightarrow> block_id x \<noteq> i \<Longrightarrow>
          i \<notin> block_id ` set (getDescendants (removeBlock i x))"
    using Block.IH by blast
  with Block.prems show ?case by auto
qed

lemma dispose_gone:
  "block_id b \<notin> block_id ` set (getAllBlocks (fst (dispose b s)))"
  using removeBlock_gone [of _ "block_id b"]
  by (auto simp: dispose_def getAllBlocks_def getTopBlocks_def)

text \<open>
  C4. \<open>deleteProcedureDefCallback\<close> computes the callers outside the stack of the
  definition root (\<open>getCallers\<close> with \<open>allowRecursive\<close> false, which does not raise here).
  When there is one, the answer is \<^verbatim>\<open>false\<close> and the state is the one before. When there
  is none, the answer is \<^verbatim>\<open>true\<close>: the root has left the workspace with its stack, one
  delete event lists the blocks of the stack, it carries the identifier of the group opened
  for it, and the group is closed afterwards.
\<close>

theorem deleteProcedureDefCallback_guard:
  "\<exists>callers. getCallers procCode ws (Some definitionRoot) False = Inr callers
     \<and> (callers \<noteq> [] \<longrightarrow>
          deleteProcedureDefCallback procCode definitionRoot (ws, ev) = (Inr False, ws, ev))
     \<and> (callers = [] \<longrightarrow>
          (\<exists>ws1 ev1. deleteProcedureDefCallback procCode definitionRoot (ws, ev)
                        = (Inr True, ws1, ev1)
             \<and> block_id definitionRoot \<notin> block_id ` set (getAllBlocks ws1)
             \<and> topBlocks ws1 = map (removeBlock (block_id definitionRoot))
                 (filter (\<lambda>c. block_id c \<noteq> block_id definitionRoot) (topBlocks ws))
             \<and> mutation ws1 = mutation ws
             \<and> fired ev1 = fired ev @
                 [\<lparr>ev_payload = Delete (block_id definitionRoot)
                                  (map block_id (getDescendants definitionRoot)),
                   ev_group = Some (uidCount ev), ev_recordUndo = recordUndo ev\<rparr>]
             \<and> group ev1 = None
             \<and> uidCount ev1 = uidCount ev + 1
             \<and> recordUndo ev1 = recordUndo ev))"
proof -
  obtain callers where c: "getCallers procCode ws (Some definitionRoot) False = Inr callers"
    by (simp add: getCallers_Some)
  have refuse: "callers \<noteq> [] \<longrightarrow>
      deleteProcedureDefCallback procCode definitionRoot (ws, ev) = (Inr False, ws, ev)"
    by (simp add: deleteProcedureDefCallback_def c)
  have accept: "callers = [] \<longrightarrow>
          (\<exists>ws1 ev1. deleteProcedureDefCallback procCode definitionRoot (ws, ev)
                        = (Inr True, ws1, ev1)
             \<and> block_id definitionRoot \<notin> block_id ` set (getAllBlocks ws1)
             \<and> topBlocks ws1 = map (removeBlock (block_id definitionRoot))
                 (filter (\<lambda>c. block_id c \<noteq> block_id definitionRoot) (topBlocks ws))
             \<and> mutation ws1 = mutation ws
             \<and> fired ev1 = fired ev @
                 [\<lparr>ev_payload = Delete (block_id definitionRoot)
                                  (map block_id (getDescendants definitionRoot)),
                   ev_group = Some (uidCount ev), ev_recordUndo = recordUndo ev\<rparr>]
             \<and> group ev1 = None
             \<and> uidCount ev1 = uidCount ev + 1
             \<and> recordUndo ev1 = recordUndo ev)"
  proof
    assume e: "callers = []"
    let ?s1 = "(ws, setGroup True ev)"
    have d: "deleteProcedureDefCallback procCode definitionRoot (ws, ev)
         = (Inr True, fst (dispose definitionRoot ?s1), setGroup False (snd (dispose definitionRoot ?s1)))"
      by (simp add: deleteProcedureDefCallback_def c e Let_def)
    have g: "block_id definitionRoot \<notin> block_id ` set (getAllBlocks (fst (dispose definitionRoot ?s1)))"
      by (rule dispose_gone)
    show "\<exists>ws1 ev1. deleteProcedureDefCallback procCode definitionRoot (ws, ev)
                        = (Inr True, ws1, ev1)
             \<and> block_id definitionRoot \<notin> block_id ` set (getAllBlocks ws1)
             \<and> topBlocks ws1 = map (removeBlock (block_id definitionRoot))
                 (filter (\<lambda>c. block_id c \<noteq> block_id definitionRoot) (topBlocks ws))
             \<and> mutation ws1 = mutation ws
             \<and> fired ev1 = fired ev @
                 [\<lparr>ev_payload = Delete (block_id definitionRoot)
                                  (map block_id (getDescendants definitionRoot)),
                   ev_group = Some (uidCount ev), ev_recordUndo = recordUndo ev\<rparr>]
             \<and> group ev1 = None
             \<and> uidCount ev1 = uidCount ev + 1
             \<and> recordUndo ev1 = recordUndo ev"
      unfolding d using g
      by (simp add: dispose_def setGroup_def fire_def BlockDelete_def)
  qed
  from c refuse accept show ?thesis by blast
qed

lemma getCallers_wsScenario: "getCallers ''jump'' wsScenario (Some defJump) False = Inr [callJump]"
  by (simp add: getCallers_Some wsScenario_def getTopBlocks_def defJump_def defAdd_def callJump_def)

lemma getCallers_wsNoCaller: "getCallers ''jump'' wsNoCaller (Some defJump) False = Inr []"
  by (simp add: getCallers_Some wsNoCaller_def getTopBlocks_def defJump_def defAdd_def)

theorem deleteProcedureDefCallback_guard_witness:
  "deleteProcedureDefCallback ''jump'' defJump (wsScenario, ev0) = (Inr False, wsScenario, ev0)
   \<and> fst (deleteProcedureDefCallback ''jump'' defJump (wsNoCaller, ev0)) = Inr True
   \<and> topBlocks (fst (snd (deleteProcedureDefCallback ''jump'' defJump (wsNoCaller, ev0)))) = [defAdd]
   \<and> map ev_group (fired (snd (snd (deleteProcedureDefCallback ''jump'' defJump (wsNoCaller, ev0)))))
       = [Some 0]"
proof -
  from deleteProcedureDefCallback_guard [of "''jump''" wsScenario defJump ev0] getCallers_wsScenario
  have a: "deleteProcedureDefCallback ''jump'' defJump (wsScenario, ev0)
             = (Inr False, wsScenario, ev0)"
    by auto
  from deleteProcedureDefCallback_guard [of "''jump''" wsNoCaller defJump ev0] getCallers_wsNoCaller
  obtain ws1 ev1 where
    b: "deleteProcedureDefCallback ''jump'' defJump (wsNoCaller, ev0) = (Inr True, ws1, ev1)"
    and t: "topBlocks ws1 = map (removeBlock (block_id defJump))
                 (filter (\<lambda>c. block_id c \<noteq> block_id defJump) (topBlocks wsNoCaller))"
    and f: "fired ev1 = fired ev0 @
                 [\<lparr>ev_payload = Delete (block_id defJump) (map block_id (getDescendants defJump)),
                   ev_group = Some (uidCount ev0), ev_recordUndo = recordUndo ev0\<rparr>]"
    by auto
  have t1: "topBlocks ws1 = [defAdd]"
    unfolding t by (simp add: wsNoCaller_def defJump_def defAdd_def)
  have f1: "map ev_group (fired ev1) = [Some 0]"
    unfolding f by (simp add: ev0_def)
  show ?thesis using a t1 f1 by (simp add: b)
qed

section \<open>The record-undo flag during propagation\<close>

lemma mutateCallers_body_flag:
  "recordUndo (snd s) = old \<Longrightarrow> recordUndo (snd (mutateCallers_body old xml c s)) = old"
  by (simp add: mutateCallers_body_def Let_def fire_def)

lemma mutateCallers_body_fired:
  "\<exists>new. fired (snd (mutateCallers_body old xml c s)) = fired (snd s) @ new
         \<and> list_all (\<lambda>e. \<not> ev_recordUndo e) new"
  by (simp add: mutateCallers_body_def Let_def fire_def BlockChange_def)

lemma mutateCallers_loop_flag:
  "recordUndo (snd s) = old \<Longrightarrow> recordUndo (snd (mutateCallers_loop old xml cs s)) = old"
  by (induction cs arbitrary: s) (simp_all add: mutateCallers_body_flag)

lemma mutateCallers_loop_fired:
  "\<exists>new. fired (snd (mutateCallers_loop old xml cs s)) = fired (snd s) @ new
         \<and> list_all (\<lambda>e. \<not> ev_recordUndo e) new"
proof (induction cs arbitrary: s)
  case Nil
  then show ?case by simp
next
  case (Cons c cs)
  obtain n1 where n1: "fired (snd (mutateCallers_body old xml c s)) = fired (snd s) @ n1"
     "list_all (\<lambda>e. \<not> ev_recordUndo e) n1"
    using mutateCallers_body_fired by blast
  obtain n2 where n2: "fired (snd (mutateCallers_loop old xml cs (mutateCallers_body old xml c s)))
       = fired (snd (mutateCallers_body old xml c s)) @ n2"
     "list_all (\<lambda>e. \<not> ev_recordUndo e) n2"
    using Cons.IH by blast
  have "fired (snd (mutateCallers_loop old xml (c # cs) s)) = fired (snd s) @ (n1 @ n2)"
    using n1 n2 by simp
  moreover have "list_all (\<lambda>e. \<not> ev_recordUndo e) (n1 @ n2)" using n1 n2 by simp
  ultimately show ?case by blast
qed

text \<open>
  C9. Whatever the record-undo flag is on entry: after \<open>mutateCallers\<close> (returning or
  raising) the flag is what it was on entry, and every event fired meanwhile was made with
  the flag off. The same holds for the loop over any sequence of callers, started with the
  entry value saved in \<open>oldRecordUndo\<close>: after each caller (after the first \<open>k\<close> callers,
  for every \<open>k\<close>) the flag is back at the entry value, and every event fired by the loop
  has the flag off.
\<close>

theorem mutateCallers_recordUndo:
  "recordUndo (snd (snd (mutateCallers defBlock s))) = recordUndo (snd s)
   \<and> (\<exists>new. fired (snd (snd (mutateCallers defBlock s))) = fired (snd s) @ new
         \<and> list_all (\<lambda>e. \<not> ev_recordUndo e) new)
   \<and> recordUndo (snd (mutateCallers_loop (recordUndo (snd s)) xmlElement (take k callers) s))
       = recordUndo (snd s)
   \<and> (\<exists>new. fired (snd (mutateCallers_loop (recordUndo (snd s)) xmlElement callers s))
           = fired (snd s) @ new
         \<and> list_all (\<lambda>e. \<not> ev_recordUndo e) new)"
proof -
  have a: "recordUndo (snd (snd (mutateCallers defBlock s))) = recordUndo (snd s)"
    by (simp add: mutateCallers_def Let_def mutateCallers_loop_flag split: option.splits sum.splits)
  have b: "\<exists>new. fired (snd (snd (mutateCallers defBlock s))) = fired (snd s) @ new
         \<and> list_all (\<lambda>e. \<not> ev_recordUndo e) new"
    using mutateCallers_loop_fired
    by (simp add: mutateCallers_def Let_def split: option.splits sum.splits)
  show ?thesis using a b mutateCallers_loop_flag mutateCallers_loop_fired by blast
qed

theorem mutateCallers_recordUndo_witness:
  "recordUndo (snd (mutateCallers_loop True (Some ''foo a b'') [callFoo] (wsCall, ev0))) = True
   \<and> map ev_recordUndo (fired (snd (mutateCallers_loop True (Some ''foo a b'') [callFoo] (wsCall, ev0))))
       = [False]
   \<and> recordUndo (snd (snd (mutateCallers defFooAB (wsCall, ev0)))) = True"
  using mutateCallers_recordUndo [of defFooAB "(wsCall, ev0)" "Some ''foo a b''" 1 "[callFoo]"]
  by (simp add: mutateCallers_body_def Let_def wsCall_def ev0_def callFoo_def mutationToDom_def
      domToMutation_def domToText_def fire_def BlockChange_def)

section \<open>The unguarded index of isNameUsed\<close>

lemma isNameUsed_loop_total:
  "(\<forall>b \<in> set blocks. getProcedureDef b \<noteq> Some None) \<Longrightarrow>
   \<exists>r. isNameUsed_loop name blocks opt_exclude = Inr r"
  by (induction blocks) (auto simp: index0_def split: option.splits)

lemma allProcedures_loop_total:
  "\<exists>r. allProcedures_loop blocks pr pnr = Inr r"
  by (induction blocks arbitrary: pr pnr) (auto simp: index2_def split: option.splits)

lemma getDefinition_loop_total:
  "\<exists>r. getDefinition_loop name blocks = Inr r"
  by (induction blocks) (auto simp: index0_def split: option.splits)

text \<open>
  C10. \<open>isNameUsed\<close> returns (does not raise) when no block of the workspace answers
  \<^verbatim>\<open>null\<close> from \<^verbatim>\<open>getProcedureDef\<close>; \<open>allProcedures\<close> and \<open>getDefinition\<close> test the
  answer before indexing it and return on every workspace. On the workspace whose block
  answers \<^verbatim>\<open>null\<close>, \<open>isNameUsed\<close> raises a \<^verbatim>\<open>TypeError\<close> for every name.
\<close>

theorem isNameUsed_unguarded_index:
  "((\<forall>b \<in> set (getAllBlocks ws). getProcedureDef b \<noteq> Some None) \<longrightarrow>
      (\<exists>r. isNameUsed name ws opt_exclude = Inr r))
   \<and> (\<exists>r. allProcedures localeCompare ws = Inr r)
   \<and> (\<exists>r. getDefinition name ws = Inr r)
   \<and> defNull \<in> set (getAllBlocks wsNull)
   \<and> getProcedureDef defNull = Some None
   \<and> isNameUsed name wsNull None = Inl TypeError"
proof -
  have a: "(\<forall>b \<in> set (getAllBlocks ws). getProcedureDef b \<noteq> Some None) \<longrightarrow>
      (\<exists>r. isNameUsed name ws opt_exclude = Inr r)"
    using isNameUsed_loop_total by (simp add: isNameUsed_def)
  obtain r where r: "allProcedures_loop (getAllBlocks ws) [] [] = Inr r"
    using allProcedures_loop_total by blast
  have b: "\<exists>r. allProcedures localeCompare ws = Inr r"
    by (simp add: allProcedures_def r)
  have c: "\<exists>r. getDefinition name ws = Inr r"
    using getDefinition_loop_total by (simp add: getDefinition_def)
  have d: "defNull \<in> set (getAllBlocks wsNull) \<and> getProcedureDef defNull = Some None
    \<and> isNameUsed name wsNull None = Inl TypeError"
    by (simp add: isNameUsed_def wsNull_def defNull_def getAllBlocks_def getTopBlocks_def index0_def)
  from a b c d show ?thesis by blast
qed

theorem isNameUsed_unguarded_index_witness:
  "isNameUsed ''bar'' wsFoo None = Inr True
   \<and> isNameUsed ''bar'' wsNull None = Inl TypeError
   \<and> (\<exists>r. allProcedures (\<lambda>a b. 0) wsNull = Inr r)
   \<and> (\<exists>r. getDefinition ''bar'' wsNull = Inr r)"
proof -
  have p: "\<forall>b \<in> set (getAllBlocks wsFoo). getProcedureDef b \<noteq> Some None"
    by (simp add: wsFoo_def defFoo_def getAllBlocks_def getTopBlocks_def)
  have v: "isNameUsed ''bar'' wsFoo None = Inr True" by code_simp
  from p v isNameUsed_unguarded_index [of wsFoo "''bar''" None "\<lambda>a b. 0"]
    isNameUsed_unguarded_index [of wsNull "''bar''" None "\<lambda>a b. 0"]
  show ?thesis by blast
qed

section \<open>Renaming to a new name\<close>

lemma trim_nbsp_bar: "trim (CHR 0xA0 # '' bar  '') = ''bar''"
  by code_simp

lemma isLegalName_wsCall: "isLegalName n wsCall (Some defFooAB) = Inr False"
  by (simp add: isLegalName_def isNameUsed_def wsCall_def defFooAB_def callFoo_def
      getAllBlocks_def getTopBlocks_def)

lemma findLegalName_wsCall: "findLegalName h n defFooAB wsCall = None"
  by (rule findLegalName_loops) (simp add: defFooAB_def, rule isLegalName_wsCall)

text \<open>
  C6. The claim: \<open>rename\<close> trims the raw name, takes the accepted name from
  \<open>findLegalName\<close>, tells every block that can rename its reference when the accepted name
  differs from the old one, and returns the accepted name. Renaming \<open>foo\<close> to \<open>bar\<close>
  (typed with a non-breaking space and blanks around it) in the workspace that holds the
  definition of \<open>foo\<close> and a call of it: the name is trimmed to \<open>bar\<close>, no definition is
  called \<open>bar\<close>, and the code does not return; the call, which can rename its reference,
  is never told. The loop of \<open>findLegalName\<close> does not end, as for C3.
\<close>

theorem rename_new_name_never_returns:
  "rename hostIncrement (CHR 0xA0 # '' bar  '') defFooAB ''foo'' wsCall = None
   \<and> trim (CHR 0xA0 # '' bar  '') = ''bar''
   \<and> callFoo \<in> set (getAllBlocks wsCall)
   \<and> renameProcedure callFoo"
proof -
  have r: "rename hostIncrement (CHR 0xA0 # '' bar  '') defFooAB ''foo'' wsCall = None"
    unfolding rename_def Let_def trim_nbsp_bar findLegalName_wsCall by simp
  have g: "callFoo \<in> set (getAllBlocks wsCall) \<and> renameProcedure callFoo"
    by (simp add: wsCall_def defFooAB_def callFoo_def getAllBlocks_def getTopBlocks_def)
  from r g trim_nbsp_bar show ?thesis by simp
qed

section \<open>The list of the procedures\<close>

lemma allProcedures_loop_eq:
  "allProcedures_loop blocks pr pnr =
     Inr (pr @ filter tuple2 (tuplesOf blocks), pnr @ filter (\<lambda>t. \<not> tuple2 t) (tuplesOf blocks))"
  by (induction blocks arbitrary: pr pnr) (auto simp: index2_def split: option.splits)

lemma set_insort_cmp: "set (insort_cmp cmp x ys) = insert x (set ys)"
  by (induction ys) auto

lemma mset_insort_cmp: "mset (insort_cmp cmp x ys) = add_mset x (mset ys)"
  by (induction ys) auto

lemma mset_Array_sort: "mset (Array_sort cmp xs) = mset xs"
  by (induction xs) (simp_all add: Array_sort_def mset_insort_cmp)

lemma sorted_insort_cmp:
  assumes total: "\<And>a b. cmp a b \<le> 0 \<or> cmp b a \<le> 0"
    and trans: "\<And>a b c. cmp a b \<le> 0 \<Longrightarrow> cmp b c \<le> 0 \<Longrightarrow> cmp a c \<le> 0"
  shows "sorted_wrt (\<lambda>a b. cmp a b \<le> 0) ys \<Longrightarrow>
         sorted_wrt (\<lambda>a b. cmp a b \<le> 0) (insort_cmp cmp x ys)"
proof (induction ys)
  case Nil
  then show ?case by simp
next
  case (Cons y ys)
  show ?case
  proof (cases "cmp x y \<le> 0")
    case True
    then have "\<forall>z \<in> set ys. cmp x z \<le> 0" using Cons.prems trans by auto
    with True Cons.prems show ?thesis by simp
  next
    case False
    then have "cmp y x \<le> 0" using total by blast
    with False Cons show ?thesis by (auto simp: set_insort_cmp)
  qed
qed

lemma sorted_Array_sort:
  assumes total: "\<And>a b. cmp a b \<le> 0 \<or> cmp b a \<le> 0"
    and trans: "\<And>a b c. cmp a b \<le> 0 \<Longrightarrow> cmp b c \<le> 0 \<Longrightarrow> cmp a c \<le> 0"
  shows "sorted_wrt (\<lambda>a b. cmp a b \<le> 0) (Array_sort cmp xs)"
proof (induction xs)
  case Nil
  then show ?case by (simp add: Array_sort_def)
next
  case (Cons x xs)
  have "Array_sort cmp (x # xs) = insort_cmp cmp x (Array_sort cmp xs)"
    by (simp add: Array_sort_def)
  with Cons sorted_insort_cmp [of cmp, OF total trans] show ?case by simp
qed

lemma filter_insort_cmp:
  "(\<And>y. P x \<Longrightarrow> P y \<Longrightarrow> cmp x y \<le> 0) \<Longrightarrow>
   filter P (insort_cmp cmp x ys) = (if P x then x # filter P ys else filter P ys)"
  by (induction ys) auto

lemma filter_Array_sort:
  assumes "\<And>x y. P x \<Longrightarrow> P y \<Longrightarrow> cmp x y \<le> 0"
  shows "filter P (Array_sort cmp xs) = filter P xs"
proof (induction xs)
  case Nil
  then show ?case by (simp add: Array_sort_def)
next
  case (Cons x xs)
  have "Array_sort cmp (x # xs) = insort_cmp cmp x (Array_sort cmp xs)"
    by (simp add: Array_sort_def)
  with Cons filter_insort_cmp [of P x cmp] assms show ?case by simp
qed

text \<open>
  C8. For a collation that is a total preorder (any two strings compare, and the comparison
  is transitive), \<open>allProcedures\<close> returns on every workspace, and returns a pair: first
  the tuples without return value, second the tuples with one, each a rearrangement of the
  tuples of the definition blocks with that flag, each sorted by the lower-cased name, and
  each keeping, among the tuples with the same lower-cased name, the order of the scan. The
  function reads the workspace and returns a value: it has no state to change.
\<close>

theorem allProcedures_sorted_stable:
  assumes total: "\<And>a b. localeCompare a b \<le> 0 \<or> localeCompare b a \<le> 0"
    and trans: "\<And>a b c. localeCompare a b \<le> 0 \<Longrightarrow> localeCompare b c \<le> 0
                  \<Longrightarrow> localeCompare a c \<le> 0"
  shows "\<exists>noReturn withReturn.
     allProcedures localeCompare ws = Inr (noReturn, withReturn)
     \<and> mset noReturn = mset (filter (\<lambda>t. \<not> tuple2 t) (definitionTuples ws))
     \<and> mset withReturn = mset (filter tuple2 (definitionTuples ws))
     \<and> sorted_wrt (\<lambda>ta tb. localeCompare (toLowerCase (tuple0 ta)) (toLowerCase (tuple0 tb)) \<le> 0)
          noReturn
     \<and> sorted_wrt (\<lambda>ta tb. localeCompare (toLowerCase (tuple0 ta)) (toLowerCase (tuple0 tb)) \<le> 0)
          withReturn
     \<and> (\<forall>k. filter (\<lambda>t. toLowerCase (tuple0 t) = k) noReturn
             = filter (\<lambda>t. toLowerCase (tuple0 t) = k)
                 (filter (\<lambda>t. \<not> tuple2 t) (definitionTuples ws)))
     \<and> (\<forall>k. filter (\<lambda>t. toLowerCase (tuple0 t) = k) withReturn
             = filter (\<lambda>t. toLowerCase (tuple0 t) = k)
                 (filter tuple2 (definitionTuples ws)))"
proof -
  let ?cmp = "procTupleComparator localeCompare"
  let ?nr = "filter (\<lambda>t. \<not> tuple2 t) (definitionTuples ws)"
  let ?wr = "filter tuple2 (definitionTuples ws)"
  have ctotal: "\<And>a b. ?cmp a b \<le> 0 \<or> ?cmp b a \<le> 0"
    using total by (simp add: procTupleComparator_def)
  have ctrans: "\<And>a b c. ?cmp a b \<le> 0 \<Longrightarrow> ?cmp b c \<le> 0 \<Longrightarrow> ?cmp a c \<le> 0"
    using trans unfolding procTupleComparator_def by blast
  have crefl: "\<And>k x y. toLowerCase (tuple0 x) = k \<Longrightarrow> toLowerCase (tuple0 y) = k
                 \<Longrightarrow> ?cmp x y \<le> 0"
    using total unfolding procTupleComparator_def by metis
  have v: "allProcedures localeCompare ws = Inr (Array_sort ?cmp ?nr, Array_sort ?cmp ?wr)"
    by (simp add: allProcedures_def allProcedures_loop_eq definitionTuples_def)
  have s: "\<And>xs. sorted_wrt (\<lambda>ta tb. localeCompare (toLowerCase (tuple0 ta))
                 (toLowerCase (tuple0 tb)) \<le> 0) (Array_sort ?cmp xs)"
    using sorted_Array_sort [of ?cmp, OF ctotal ctrans]
    by (simp add: procTupleComparator_def)
  have f: "\<And>k xs. filter (\<lambda>t. toLowerCase (tuple0 t) = k) (Array_sort ?cmp xs)
             = filter (\<lambda>t. toLowerCase (tuple0 t) = k) xs"
    by (rule filter_Array_sort) (rule crefl)
  show ?thesis
    unfolding v using s f by (simp add: mset_Array_sort)
qed

lemma codeUnitCompare_total: "codeUnitCompare a b \<le> 0 \<or> codeUnitCompare b a \<le> 0"
  by (auto simp: codeUnitCompare_def)

lemma codeUnitCompare_trans:
  "codeUnitCompare a b \<le> 0 \<Longrightarrow> codeUnitCompare b c \<le> 0 \<Longrightarrow> codeUnitCompare a c \<le> 0"
  by (auto simp: codeUnitCompare_def split: if_splits)

lemma allProcedures_wsSort:
  "allProcedures codeUnitCompare wsSort =
     Inr ([(''a'', [], False), (''b'', [], False), (''B'', [''x''], False)],
          [(''Add'', [], True)])"
  by code_simp

theorem allProcedures_sorted_stable_witness:
  "allProcedures codeUnitCompare wsSort =
     Inr ([(''a'', [], False), (''b'', [], False), (''B'', [''x''], False)],
          [(''Add'', [], True)])
   \<and> filter (\<lambda>t. toLowerCase (tuple0 t) = ''b'')
        [(''a'', [], False), (''b'', [], False), (''B'', [''x''], False)]
      = filter (\<lambda>t. toLowerCase (tuple0 t) = ''b'')
          (filter (\<lambda>t. \<not> tuple2 t) (definitionTuples wsSort))"
  using allProcedures_sorted_stable [of codeUnitCompare wsSort,
      OF codeUnitCompare_total codeUnitCompare_trans]
  by (auto simp: allProcedures_wsSort)

end
